theory Spec2Isabelle
  imports Main "HOL-Library.AList"
begin

section \<open>Values exchanged with the backend\<close>

text \<open>
  Response bodies are JavaScript values decoded from JSON. An object is an association
  list of its own properties, read with \<open>map_of\<close>; a property that is not there reads
  as \<open>None\<close>, which stands for \<open>undefined\<close>. Numbers are kept as integers: no
  operation below computes with them, only their truthiness is read.
\<close>

datatype json =
    JNull
  | JBool bool
  | JNum int
  | JStr string
  | JArr "json list"
  | JObj "(string \<times> json) list"

type_synonym jsobject = "(string \<times> json) list"

text \<open>\<open>Array.isArray(v)\<close>, for a value that may be \<open>undefined\<close>.\<close>

fun isArray :: "json option \<Rightarrow> bool" where
  "isArray (Some (JArr xs)) = True"
| "isArray _ = False"

text \<open>
  Truthiness, as \<open>&&\<close> and \<open>||\<close> test it: \<open>undefined\<close>, \<open>null\<close>, \<open>false\<close>,
  \<open>0\<close> and the empty string are falsy, everything else (every array and object too) is
  truthy.
\<close>

fun truthy :: "json option \<Rightarrow> bool" where
  "truthy None = False"
| "truthy (Some JNull) = False"
| "truthy (Some (JBool b)) = b"
| "truthy (Some (JNum n)) = (n \<noteq> 0)"
| "truthy (Some (JStr s)) = (s \<noteq> [])"
| "truthy (Some (JArr xs)) = True"
| "truthy (Some (JObj ps)) = True"

text \<open>
  Reading a data property \<open>v.k\<close> of a value that is neither \<open>null\<close> nor
  \<open>undefined\<close>, for the names the panel reads (\<open>collections\<close>, \<open>columns\<close>,
  \<open>sample_data\<close>, \<open>name\<close>): an object gives its own property, and arrays, strings,
  numbers and booleans have no property of these names.
\<close>

fun member :: "json \<Rightarrow> string \<Rightarrow> json option" where
  "member (JObj ps) k = map_of ps k"
| "member _ k = None"

text \<open>\<open>v || []\<close>.\<close>

definition or_empty :: "json option \<Rightarrow> json" where
  "or_empty v = (if truthy v then the v else JArr [])"

text \<open>
  Modelled from the spec: the type \<open>PdfCollection\<close>, which the panel imports from the
  services module. Its fields are those of the spec's Document Collection; the title
  helper tests \<open>file_names\<close> for presence before it reads it, so the field is optional
  here (\<open>None\<close> is an absent or null field).
\<close>

record PdfCollection =
  collection_id :: string
  file_names :: "string list option"
  document_count :: nat
  created_at :: string

section \<open>Title of a document collection\<close>

text \<open>
  A \<open>char\<close> stands for one code unit of a JavaScript string. The three replacements
  below test code units for equality with ASCII characters only, and copy every other
  code unit.
\<close>

text \<open>
  The pattern \<open>/\.pdf$/i\<close> tried at one start position: a dot, the letters p, d, f in
  either case, and then the end of the input.
\<close>

fun pdf_pattern_here :: "string \<Rightarrow> bool" where
  "pdf_pattern_here [a, b, c, d] =
     (a = CHR ''.'' \<and> (b = CHR ''p'' \<or> b = CHR ''P'') \<and> (c = CHR ''d'' \<or> c = CHR ''D'')
      \<and> (d = CHR ''f'' \<or> d = CHR ''F''))"
| "pdf_pattern_here _ = False"

text \<open>
  \<open>firstName.replace(/\.pdf$/i, "")\<close>: the start positions are tried from the left, the
  first match is replaced by the empty string, and the text before it is kept. The match
  runs to the end of the input, so nothing follows it.
\<close>

fun replace_pdf :: "string \<Rightarrow> string" where
  "replace_pdf [] = []"
| "replace_pdf (c # cs) = (if pdf_pattern_here (c # cs) then [] else c # replace_pdf cs)"

text \<open>\<open>.replace(/x/g, " ")\<close> for a one-character pattern: every occurrence is replaced.\<close>

definition replace_all_by_space :: "char \<Rightarrow> string \<Rightarrow> string" where
  "replace_all_by_space x s = map (\<lambda>c. if c = x then CHR '' '' else c) s"

definition getCollectionTitle :: "'a PdfCollection_scheme \<Rightarrow> string" where
  "getCollectionTitle collection =
     (case file_names collection of
        Some (firstName # rest) \<Rightarrow>
          replace_all_by_space (CHR ''-'') (replace_all_by_space (CHR ''_'') (replace_pdf firstName))
      | _ \<Rightarrow> ''Untitled Collection'')"

subsection \<open>The title as the specification words it\<close>

definition ascii_lower :: "char \<Rightarrow> char" where
  "ascii_lower c =
     (case map_of (zip ''ABCDEFGHIJKLMNOPQRSTUVWXYZ'' ''abcdefghijklmnopqrstuvwxyz'') c of
        Some l \<Rightarrow> l
      | None \<Rightarrow> c)"

definition ends_with_pdf :: "string \<Rightarrow> bool" where
  "ends_with_pdf s = (4 \<le> length s \<and> map ascii_lower (drop (length s - 4) s) = ''.pdf'')"

definition strip_pdf_suffix :: "string \<Rightarrow> string" where
  "strip_pdf_suffix s = (if ends_with_pdf s then take (length s - 4) s else s)"

definition spec_title :: "string \<Rightarrow> string" where
  "spec_title s =
     map (\<lambda>c. if c = CHR ''_'' \<or> c = CHR ''-'' then CHR '' '' else c) (strip_pdf_suffix s)"

section \<open>The panel's state and its effects\<close>

text \<open>
  A request that has settled: fulfilled with a body, or rejected with an error. For the
  calls made with \<open>fetch\<close>, a rejection of \<open>res.json()\<close> (a body that is not JSON) is a
  rejection of the chain like a network error is.
\<close>

datatype 'a settled = Fulfilled 'a | Rejected string

text \<open>
  A template literal, kept as its parts: literal text and interpolated values
  (\<open>None\<close> is \<open>undefined\<close>).
\<close>

datatype tpart = Lit string | Val "json option"

type_synonym upload_file = string

datatype request =
    PdfCollectionsGet
  | ChatCollectionsGet
  | Fetch "tpart list"
  | PdfUploadStore "(string \<times> upload_file) list"
  | PdfCollectionDelete string
  | ChatCollectionDelete string

record toast_msg =
  title :: string
  description :: "tpart list"
  variant :: "string option"

text \<open>
  Everything a handler does, in the order it does it: calls of the state setters, toasts,
  console output and requests.
\<close>

datatype event =
    SetPdfCollections "PdfCollection list"
  | SetChatCollections "json list"
  | SetDbTables "jsobject list"
  | SetUploading bool
  | SetLoadingPdf bool
  | SetLoadingChat bool
  | SetLoadingDb bool
  | SetExpandedTables "string set"
  | Toast toast_msg
  | ConsoleLog string
  | ConsoleError string string
  | Request request

record sidebar =
  apiUrl :: string
  activeTab :: string
  pdfCollections :: "PdfCollection list"
  chatCollections :: "json list"
  dbTables :: "jsobject list"
  uploading :: bool
  loadingPdf :: bool
  loadingChat :: bool
  loadingDb :: bool
  expandedTables :: "string set"
  trace :: "event list"

text \<open>The state a freshly mounted panel starts from.\<close>

definition initial :: "string \<Rightarrow> sidebar" where
  "initial url =
     \<lparr>apiUrl = url, activeTab = ''pdf'', pdfCollections = [], chatCollections = [],
      dbTables = [], uploading = False, loadingPdf = False, loadingChat = False,
      loadingDb = False, expandedTables = {}, trace = []\<rparr>"

definition emit :: "event \<Rightarrow> sidebar \<Rightarrow> sidebar" where
  "emit e s = s\<lparr>trace := trace s @ [e]\<rparr>"

definition setPdfCollections :: "PdfCollection list \<Rightarrow> sidebar \<Rightarrow> sidebar" where
  "setPdfCollections v s = emit (SetPdfCollections v) (s\<lparr>pdfCollections := v\<rparr>)"

definition setChatCollections :: "json list \<Rightarrow> sidebar \<Rightarrow> sidebar" where
  "setChatCollections v s = emit (SetChatCollections v) (s\<lparr>chatCollections := v\<rparr>)"

definition setDbTables :: "jsobject list \<Rightarrow> sidebar \<Rightarrow> sidebar" where
  "setDbTables v s = emit (SetDbTables v) (s\<lparr>dbTables := v\<rparr>)"

definition setUploading :: "bool \<Rightarrow> sidebar \<Rightarrow> sidebar" where
  "setUploading v s = emit (SetUploading v) (s\<lparr>uploading := v\<rparr>)"

definition setLoadingPdf :: "bool \<Rightarrow> sidebar \<Rightarrow> sidebar" where
  "setLoadingPdf v s = emit (SetLoadingPdf v) (s\<lparr>loadingPdf := v\<rparr>)"

definition setLoadingChat :: "bool \<Rightarrow> sidebar \<Rightarrow> sidebar" where
  "setLoadingChat v s = emit (SetLoadingChat v) (s\<lparr>loadingChat := v\<rparr>)"

definition setLoadingDb :: "bool \<Rightarrow> sidebar \<Rightarrow> sidebar" where
  "setLoadingDb v s = emit (SetLoadingDb v) (s\<lparr>loadingDb := v\<rparr>)"

definition setExpandedTables :: "string set \<Rightarrow> sidebar \<Rightarrow> sidebar" where
  "setExpandedTables v s = emit (SetExpandedTables v) (s\<lparr>expandedTables := v\<rparr>)"

definition toast :: "toast_msg \<Rightarrow> sidebar \<Rightarrow> sidebar" where
  "toast m = emit (Toast m)"

definition console_log :: "string \<Rightarrow> sidebar \<Rightarrow> sidebar" where
  "console_log label = emit (ConsoleLog label)"

definition console_error :: "string \<Rightarrow> string \<Rightarrow> sidebar \<Rightarrow> sidebar" where
  "console_error label err = emit (ConsoleError label err)"

definition request :: "request \<Rightarrow> sidebar \<Rightarrow> sidebar" where
  "request r = emit (Request r)"

text \<open>Statements in sequence: the first of the list runs first.\<close>

definition steps :: "(sidebar \<Rightarrow> sidebar) list \<Rightarrow> sidebar \<Rightarrow> sidebar" where
  "steps fs s = fold (\<lambda>f. f) fs s"

text \<open>What a run from \<open>s\<close> to \<open>s'\<close> has added to the trace.\<close>

definition new_events :: "sidebar \<Rightarrow> sidebar \<Rightarrow> event list" where
  "new_events s s' = drop (length (trace s)) (trace s')"

fun is_toast :: "event \<Rightarrow> bool" where
  "is_toast (Toast m) = True"
| "is_toast _ = False"

fun is_request :: "event \<Rightarrow> bool" where
  "is_request (Request r) = True"
| "is_request _ = False"

fun is_loading_write :: "event \<Rightarrow> bool" where
  "is_loading_write (SetLoadingPdf b) = True"
| "is_loading_write (SetLoadingChat b) = True"
| "is_loading_write (SetLoadingDb b) = True"
| "is_loading_write _ = False"

fun is_store_write :: "event \<Rightarrow> bool" where
  "is_store_write (SetPdfCollections v) = True"
| "is_store_write (SetChatCollections v) = True"
| "is_store_write (SetDbTables v) = True"
| "is_store_write _ = False"

section \<open>Fetching the lists\<close>

text \<open>
  A handler that waits for a request is written in two parts: what the call does before
  it returns (\<open>_start\<close>), and what runs once the request has settled (\<open>_settle\<close>, the
  \<open>then\<close>, \<open>catch\<close> and \<open>finally\<close> callbacks in that order). The handler run without
  anything else in between is the one after the other.
\<close>

subsection \<open>Documents\<close>

definition fetchCollections_start :: "sidebar \<Rightarrow> sidebar" where
  "fetchCollections_start = steps [setLoadingPdf True, request PdfCollectionsGet]"

definition fetchCollections_settle :: "PdfCollection list settled \<Rightarrow> sidebar \<Rightarrow> sidebar" where
  "fetchCollections_settle r =
     steps
      [case r of
         Fulfilled data \<Rightarrow>
           steps [console_log ''Fetched PDF collections:'', setPdfCollections data]
       | Rejected err \<Rightarrow>
           steps
            [console_error ''Failed to fetch collections:'' err,
             toast \<lparr>title = ''Error'', description = [Lit ''Failed to fetch PDF collections''],
                    variant = Some ''destructive''\<rparr>],
       setLoadingPdf False]"

definition fetchCollections :: "PdfCollection list settled \<Rightarrow> sidebar \<Rightarrow> sidebar" where
  "fetchCollections r = steps [fetchCollections_start, fetchCollections_settle r]"

subsection \<open>Chats\<close>

definition fetchChatCollections_start :: "sidebar \<Rightarrow> sidebar" where
  "fetchChatCollections_start = steps [setLoadingChat True, request ChatCollectionsGet]"

text \<open>
  The \<open>then\<close> callback: \<open>data\<close> is whatever the client has decoded, and the three
  branches are those of the source, in its order.
\<close>

definition chat_then :: "json \<Rightarrow> sidebar \<Rightarrow> sidebar" where
  "chat_then data =
     (if isArray (Some data) then
        (case data of JArr xs \<Rightarrow> setChatCollections xs | _ \<Rightarrow> setChatCollections [])
      else if truthy (Some data) \<and> isArray (member data ''collections'') then
        (case member data ''collections'' of
           Some (JArr ys) \<Rightarrow> setChatCollections ys
         | _ \<Rightarrow> setChatCollections [])
      else setChatCollections [])"

definition fetchChatCollections_settle :: "json settled \<Rightarrow> sidebar \<Rightarrow> sidebar" where
  "fetchChatCollections_settle r =
     steps
      [case r of
         Fulfilled data \<Rightarrow> chat_then data
       | Rejected err \<Rightarrow>
           steps
            [console_error ''Failed to fetch chat collections:'' err,
             setChatCollections [],
             toast \<lparr>title = ''Error'', description = [Lit ''Failed to fetch chat collections''],
                    variant = Some ''destructive''\<rparr>],
       setLoadingChat False]"

definition fetchChatCollections :: "json settled \<Rightarrow> sidebar \<Rightarrow> sidebar" where
  "fetchChatCollections r = steps [fetchChatCollections_start, fetchChatCollections_settle r]"

subsection \<open>Database tables\<close>

text \<open>
  The body of the table list, which the source leaves untyped, as far as the handler
  reads it. \<open>NullBody\<close> is the body \<open>null\<close>, on which reading \<open>data.tables\<close> throws.
  \<open>TablesBody None\<close> is any other body whose \<open>tables\<close> is absent or falsy, and
  \<open>TablesBody (Some ts)\<close> one whose \<open>tables\<close> is the array \<open>ts\<close> of table objects
  (the list endpoint's contract: a sequence of records with a \<open>name\<close>).
\<close>

datatype tables_data = NullBody | TablesBody "jsobject list option"

text \<open>
  The body of one \<open>map\<close> callback once its detail request has settled. Everything in the
  \<open>try\<close> block that fails ends in \<open>return table\<close>: a rejected \<open>fetch\<close>, a body that is
  not JSON, and the body \<open>null\<close>, on which reading \<open>detailData.columns\<close> throws. The
  object literal spreads \<open>table\<close> and then writes \<open>columns\<close> and \<open>sample_data\<close>.
\<close>

definition tableWithDetails :: "jsobject \<Rightarrow> json settled \<Rightarrow> jsobject" where
  "tableWithDetails table r =
     (case r of
        Rejected err \<Rightarrow> table
      | Fulfilled JNull \<Rightarrow> table
      | Fulfilled detailData \<Rightarrow>
          AList.update ''sample_data'' (or_empty (member detailData ''sample_data''))
            (AList.update ''columns'' (or_empty (member detailData ''columns'')) table))"

text \<open>
  What the backend does with one detail request: the request fails in the network, or it
  is answered with a status code and a body, which \<open>detailResponse.json()\<close> decodes
  (\<open>None\<close> is a body that is not JSON). \<open>response_ok\<close> is the \<open>ok\<close> property of
  the response, which the callback does not read.
\<close>

datatype detail_reply = NetworkFailure string | Reply nat "json option"

definition response_ok :: "nat \<Rightarrow> bool" where
  "response_ok status = (200 \<le> status \<and> status \<le> 299)"

text \<open>
  The two \<open>await\<close>s of the callback: \<open>fetch\<close> rejects on a network failure only, and
  \<open>json()\<close> rejects on a body that is not JSON. The status code plays no part.
\<close>

fun settles_as :: "detail_reply \<Rightarrow> json settled" where
  "settles_as (NetworkFailure err) = Rejected err"
| "settles_as (Reply status None) = Rejected ''SyntaxError''"
| "settles_as (Reply status (Some detailData)) = Fulfilled detailData"

text \<open>
  Each callback runs up to its first \<open>await\<close> when \<open>map\<close> calls it, so the detail
  requests go out in the order of the list.
\<close>

definition detail_request :: "string \<Rightarrow> jsobject \<Rightarrow> request" where
  "detail_request url table =
     Fetch [Val (Some (JStr url)), Lit ''/api/v1/database/table/'', Val (map_of table ''name'')]"

text \<open>
  The \<open>then\<close> callback. \<open>detail i\<close> is how the detail request of the table at index
  \<open>i\<close> settles. \<open>Promise.all\<close> waits for every callback, none of which rejects, and
  only then is the store written. \<open>Inl\<close> is an exception thrown by the callback.
\<close>

definition tables_then ::
  "string \<Rightarrow> (nat \<Rightarrow> json settled) \<Rightarrow> tables_data \<Rightarrow> string + (sidebar \<Rightarrow> sidebar)" where
  "tables_then url detail data =
     (case data of
        NullBody \<Rightarrow> Inl ''TypeError''
      | TablesBody None \<Rightarrow> Inr (setDbTables [])
      | TablesBody (Some tables) \<Rightarrow>
          if length tables > 0 then
            Inr (steps
                  [steps (map (\<lambda>table. request (detail_request url table)) tables),
                   setDbTables
                     (map (\<lambda>(i, table). tableWithDetails table (detail i))
                        (enumerate 0 tables))])
          else Inr (setDbTables []))"

definition fetchDbTables_start :: "sidebar \<Rightarrow> sidebar" where
  "fetchDbTables_start s =
     steps
      [setLoadingDb True,
       request (Fetch [Val (Some (JStr (apiUrl s))), Lit ''/api/v1/database/tables''])] s"

definition fetchDbTables_settle ::
  "tables_data settled \<Rightarrow> (nat \<Rightarrow> json settled) \<Rightarrow> sidebar \<Rightarrow> sidebar" where
  "fetchDbTables_settle r detail s =
     steps
      [case r of
         Fulfilled data \<Rightarrow>
           (case tables_then (apiUrl s) detail data of
              Inr run \<Rightarrow> run
            | Inl err \<Rightarrow> console_error ''Failed to fetch database tables:'' err)
       | Rejected err \<Rightarrow> console_error ''Failed to fetch database tables:'' err,
       setLoadingDb False] s"

definition fetchDbTables ::
  "tables_data settled \<Rightarrow> (nat \<Rightarrow> json settled) \<Rightarrow> sidebar \<Rightarrow> sidebar" where
  "fetchDbTables r detail = steps [fetchDbTables_start, fetchDbTables_settle r detail]"

section \<open>Uploading and deleting\<close>

text \<open>
  Modelled from the spec: the type \<open>UploadResponse\<close> of the services module, the body
  of a successful upload, which carries the number of files the server has accepted.
\<close>

record UploadResponse =
  file_count :: int

text \<open>
  What the handler does with a selection that is not empty before it returns: it sets
  \<open>uploading\<close>, appends every file to the form data under \<open>files\<close>, and sends the
  form in one request.
\<close>

definition handlePdfUpload_start :: "upload_file list \<Rightarrow> sidebar \<Rightarrow> sidebar" where
  "handlePdfUpload_start fs =
     steps [setUploading True, request (PdfUploadStore (map (\<lambda>f. (''files'', f)) fs))]"

text \<open>
  Once the upload has settled. On success the \<open>then\<close> callback starts the reload and
  returns, \<open>finally\<close> clears \<open>uploading\<close>, and the reload settles after that.
\<close>

definition handlePdfUpload_settle ::
  "UploadResponse settled \<Rightarrow> PdfCollection list settled \<Rightarrow> sidebar \<Rightarrow> sidebar" where
  "handlePdfUpload_settle upload reload =
     (case upload of
        Fulfilled data \<Rightarrow>
          steps
           [toast \<lparr>title = ''Upload Successful'',
                   description =
                     [Val (Some (JNum (file_count data))),
                      Lit '' PDF(s) uploaded successfully''],
                   variant = None\<rparr>,
            fetchCollections_start,
            setUploading False,
            fetchCollections_settle reload]
      | Rejected err \<Rightarrow>
          steps
           [console_error ''Upload failed:'' err,
            toast \<lparr>title = ''Upload Failed'',
                   description = [Lit ''Failed to upload PDF files''],
                   variant = Some ''destructive''\<rparr>,
            setUploading False])"

text \<open>\<open>files\<close> is \<open>None\<close> for \<open>null\<close>; without files the handler returns at once.\<close>

definition handlePdfUpload ::
  "upload_file list option \<Rightarrow> UploadResponse settled \<Rightarrow> PdfCollection list settled \<Rightarrow>
   sidebar \<Rightarrow> sidebar" where
  "handlePdfUpload files upload reload =
     (case files of
        None \<Rightarrow> steps []
      | Some fs \<Rightarrow>
          if length fs = 0 then steps []
          else steps [handlePdfUpload_start fs, handlePdfUpload_settle upload reload])"

definition deleteCollection ::
  "string \<Rightarrow> unit settled \<Rightarrow> PdfCollection list settled \<Rightarrow> sidebar \<Rightarrow> sidebar" where
  "deleteCollection collectionId deleted reload =
     steps
      [request (PdfCollectionDelete collectionId),
       case deleted of
         Fulfilled ack \<Rightarrow>
           steps
            [toast \<lparr>title = ''Collection Deleted'',
                    description = [Lit ''Collection deleted successfully''], variant = None\<rparr>,
             fetchCollections reload]
       | Rejected err \<Rightarrow>
           steps
            [console_error ''Delete failed:'' err,
             toast \<lparr>title = ''Delete Failed'',
                    description = [Lit ''Failed to delete collection''],
                    variant = Some ''destructive''\<rparr>]]"

definition deleteChatCollection ::
  "string \<Rightarrow> unit settled \<Rightarrow> json settled \<Rightarrow> sidebar \<Rightarrow> sidebar" where
  "deleteChatCollection collectionId deleted reload =
     steps
      [request (ChatCollectionDelete collectionId),
       case deleted of
         Fulfilled ack \<Rightarrow>
           steps
            [toast \<lparr>title = ''Chat Collection Deleted'',
                    description = [Lit ''Chat collection deleted successfully''],
                    variant = None\<rparr>,
             fetchChatCollections reload]
       | Rejected err \<Rightarrow>
           steps
            [console_error ''Delete failed:'' err,
             toast \<lparr>title = ''Delete Failed'',
                    description = [Lit ''Failed to delete chat collection''],
                    variant = Some ''destructive''\<rparr>]]"

section \<open>Expanding a table\<close>

definition toggleTableExpansion :: "string \<Rightarrow> sidebar \<Rightarrow> sidebar" where
  "toggleTableExpansion tableName s =
     setExpandedTables
       (let newSet = expandedTables s
        in if tableName \<in> newSet then newSet - {tableName} else insert tableName newSet) s"

section \<open>Example values\<close>

text \<open>A collection that an earlier, successful fetch has left in the documents store.\<close>

definition stale_collection :: PdfCollection where
  "stale_collection =
     \<lparr>collection_id = ''c1'', file_names = Some [''report.pdf''], document_count = 3,
      created_at = ''2024-01-01''\<rparr>"

definition annual_report :: PdfCollection where
  "annual_report =
     \<lparr>collection_id = ''c2'', file_names = Some [''Annual_Report-2023.PDF'', ''notes.pdf''],
      document_count = 12, created_at = ''2024-02-01''\<rparr>"

definition no_files :: PdfCollection where
  "no_files =
     \<lparr>collection_id = ''c3'', file_names = Some [], document_count = 7,
      created_at = ''2024-03-01''\<rparr>"

text \<open>
  A list of five tables. In \<open>mixed_replies\<close> the detail request for \<open>orders\<close> fails in
  the network, the one for \<open>products\<close> is answered with a body that is not JSON, and
  the one for \<open>invoices\<close> with the body \<open>null\<close>. In \<open>orders_not_found\<close> the detail
  request for \<open>orders\<close> is answered with status 404 and a JSON error body.
\<close>

definition five_tables :: "jsobject list" where
  "five_tables =
     [[(''name'', JStr ''users'')], [(''name'', JStr ''orders'')], [(''name'', JStr ''products'')],
      [(''name'', JStr ''invoices'')], [(''name'', JStr ''payments'')]]"

definition id_column :: json where
  "id_column = JObj [(''columns'', JArr [JObj [(''name'', JStr ''id'')]]), (''sample_data'', JArr [])]"

definition mixed_replies :: "nat \<Rightarrow> detail_reply" where
  "mixed_replies i =
     (if i = 1 then NetworkFailure ''Failed to fetch''
      else if i = 2 then Reply 502 None
      else if i = 3 then Reply 200 (Some JNull)
      else Reply 200 (Some id_column))"

definition mixed_details :: "nat \<Rightarrow> json settled" where
  "mixed_details i = settles_as (mixed_replies i)"

definition orders_not_found :: "nat \<Rightarrow> json settled" where
  "orders_not_found i =
     settles_as
       (if i = 1 then Reply 404 (Some (JObj [(''detail'', JStr ''Table not found'')]))
        else Reply 200 (Some id_column))"

definition orders_expanded :: sidebar where
  "orders_expanded = (initial ''http://localhost:8000'')\<lparr>expandedTables := {''orders''}\<rparr>"

section \<open>Properties\<close>

lemmas effect_defs =
  steps_def emit_def setPdfCollections_def setChatCollections_def setDbTables_def
  setUploading_def setLoadingPdf_def setLoadingChat_def setLoadingDb_def
  setExpandedTables_def toast_def console_log_def console_error_def request_def

lemmas fetch_defs =
  fetchCollections_def fetchCollections_start_def fetchCollections_settle_def
  fetchChatCollections_def fetchChatCollections_start_def fetchChatCollections_settle_def
  fetchDbTables_def fetchDbTables_start_def fetchDbTables_settle_def

subsection \<open>The title\<close>

lemma lower_dot: "ascii_lower a = CHR ''.'' \<longleftrightarrow> a = CHR ''.''"
  by (simp add: ascii_lower_def)

lemma lower_p: "ascii_lower b = CHR ''p'' \<longleftrightarrow> b = CHR ''p'' \<or> b = CHR ''P''"
  by (simp add: ascii_lower_def)

lemma lower_d: "ascii_lower b = CHR ''d'' \<longleftrightarrow> b = CHR ''d'' \<or> b = CHR ''D''"
  by (simp add: ascii_lower_def)

lemma lower_f: "ascii_lower b = CHR ''f'' \<longleftrightarrow> b = CHR ''f'' \<or> b = CHR ''F''"
  by (simp add: ascii_lower_def)

lemma pdf_pattern_here_iff:
  "pdf_pattern_here s \<longleftrightarrow> length s = 4 \<and> map ascii_lower s = ''.pdf''"
proof (cases s rule: pdf_pattern_here.cases)
  case (1 a b c d)
  then show ?thesis by (simp add: lower_dot lower_p lower_d lower_f)
qed auto

text \<open>The regular expression removes exactly a final \<open>.pdf\<close> in any case, once.\<close>

lemma replace_pdf_strip: "replace_pdf s = strip_pdf_suffix s"
proof (induction s)
  case Nil
  show ?case by (simp add: strip_pdf_suffix_def ends_with_pdf_def)
next
  case (Cons c cs)
  show ?case
  proof (cases "pdf_pattern_here (c # cs)")
    case True
    then show ?thesis
      by (simp add: pdf_pattern_here_iff strip_pdf_suffix_def ends_with_pdf_def)
  next
    case False
    show ?thesis
    proof (cases "4 \<le> length cs")
      case True
      then have n: "length (c # cs) - 4 = Suc (length cs - 4)"
        by simp
      have "drop (length (c # cs) - 4) (c # cs) = drop (length cs - 4) cs"
        unfolding n by simp
      moreover have "take (length (c # cs) - 4) (c # cs) = c # take (length cs - 4) cs"
        unfolding n by simp
      ultimately show ?thesis using False True Cons.IH
        by (simp add: strip_pdf_suffix_def ends_with_pdf_def)
    next
      case short: False
      then have "\<not> ends_with_pdf cs" by (simp add: ends_with_pdf_def)
      moreover have "\<not> ends_with_pdf (c # cs)"
        using False short by (auto simp: ends_with_pdf_def pdf_pattern_here_iff)
      ultimately show ?thesis using False Cons.IH
        by (simp add: strip_pdf_suffix_def)
    qed
  qed
qed

lemma replace_both_by_space:
  "replace_all_by_space (CHR ''-'') (replace_all_by_space (CHR ''_'') s) =
   map (\<lambda>c. if c = CHR ''_'' \<or> c = CHR ''-'' then CHR '' '' else c) s"
  by (simp add: replace_all_by_space_def)

text \<open>
  C3: the title of a collection with a first file name is that name without a final
  \<open>.pdf\<close> (in any case) and with every underscore and hyphen turned into a space; the
  title of a collection whose \<open>file_names\<close> is empty is \<open>Untitled Collection\<close>, whatever
  its other fields are.
\<close>

theorem getCollectionTitle_spec:
  "(file_names c = Some (firstName # rest) \<longrightarrow> getCollectionTitle c = spec_title firstName)
   \<and> (file_names c = Some [] \<longrightarrow> getCollectionTitle c = ''Untitled Collection'')"
  by (simp add: getCollectionTitle_def spec_title_def replace_pdf_strip replace_both_by_space)

text \<open>The spec's example, and a collection without files.\<close>

theorem getCollectionTitle_spec_witness:
  "file_names annual_report = Some (''Annual_Report-2023.PDF'' # [''notes.pdf''])
   \<and> getCollectionTitle annual_report = ''Annual Report 2023''
   \<and> file_names no_files = Some []
   \<and> getCollectionTitle no_files = ''Untitled Collection''"
proof -
  have a: "file_names annual_report = Some (''Annual_Report-2023.PDF'' # [''notes.pdf''])"
    by (simp add: annual_report_def)
  have b: "file_names no_files = Some []"
    by (simp add: no_files_def)
  have "getCollectionTitle annual_report = spec_title ''Annual_Report-2023.PDF''"
    using getCollectionTitle_spec [of annual_report "''Annual_Report-2023.PDF''" "[''notes.pdf'']"] a
    by blast
  moreover have "spec_title ''Annual_Report-2023.PDF'' = ''Annual Report 2023''"
    by (simp add: spec_title_def strip_pdf_suffix_def ends_with_pdf_def ascii_lower_def)
  moreover have "getCollectionTitle no_files = ''Untitled Collection''"
    using getCollectionTitle_spec [of no_files] b by blast
  ultimately show ?thesis using a b by simp
qed

subsection \<open>Running a sequence of statements\<close>

lemma steps_Nil: "steps [] s = s"
  by (simp add: steps_def)

lemma steps_Cons: "steps (f # fs) s = steps fs (f s)"
  by (simp add: steps_def)

lemma steps_requests:
  "steps (map (\<lambda>x. request (f x)) xs) s = s\<lparr>trace := trace s @ map (\<lambda>x. Request (f x)) xs\<rparr>"
proof (induction xs arbitrary: s)
  case Nil
  show ?case by (simp add: steps_Nil)
next
  case (Cons x xs)
  have "steps (map (\<lambda>x. request (f x)) (x # xs)) s
        = steps (map (\<lambda>x. request (f x)) xs) (request (f x) s)"
    by (simp add: steps_Cons)
  also have "\<dots> =
      (request (f x) s)\<lparr>trace := trace (request (f x) s) @ map (\<lambda>x. Request (f x)) xs\<rparr>"
    by (rule Cons.IH)
  also have "\<dots> = s\<lparr>trace := trace s @ map (\<lambda>x. Request (f x)) (x # xs)\<rparr>"
    by (simp add: request_def emit_def)
  finally show ?case .
qed

subsection \<open>The chat list\<close>

lemma chat_then_cases:
  "chat_then data = setChatCollections
     (case data of
        JArr xs \<Rightarrow> xs
      | JObj ps \<Rightarrow> (case map_of ps ''collections'' of Some (JArr ys) \<Rightarrow> ys | _ \<Rightarrow> [])
      | _ \<Rightarrow> [])"
  by (cases data) (auto simp: chat_then_def split: option.splits json.splits)

text \<open>
  C2: a chat list that is a bare array becomes the store's items as it is; an object whose
  \<open>collections\<close> is an array gives that array; every other value (\<open>null\<close>, an
  unrelated object, a number, ...) gives the empty list; and whatever the value is, no
  toast is shown.
\<close>

theorem fetchChatCollections_shapes:
  "chatCollections (fetchChatCollections (Fulfilled (JArr xs)) s) = xs
   \<and> (map_of ps ''collections'' = Some (JArr ys) \<longrightarrow>
        chatCollections (fetchChatCollections (Fulfilled (JObj ps)) s) = ys)
   \<and> ((\<forall>xs. data \<noteq> JArr xs)
        \<and> (\<forall>ps ys. \<not> (data = JObj ps \<and> map_of ps ''collections'' = Some (JArr ys))) \<longrightarrow>
        chatCollections (fetchChatCollections (Fulfilled data) s) = [])
   \<and> filter is_toast (new_events s (fetchChatCollections (Fulfilled data) s)) = []"
  by (cases data)
     (auto simp: fetchChatCollections_def fetchChatCollections_start_def
        fetchChatCollections_settle_def chat_then_cases effect_defs new_events_def
        split: option.splits json.splits)

text \<open>An envelope of two chats, and the body \<open>null\<close>.\<close>

theorem fetchChatCollections_shapes_witness:
  "map_of [(''collections'', JArr [JStr ''a'', JStr ''b'']), (''count'', JNum 2)] ''collections''
     = Some (JArr [JStr ''a'', JStr ''b''])
   \<and> chatCollections
        (fetchChatCollections
          (Fulfilled (JObj [(''collections'', JArr [JStr ''a'', JStr ''b'']), (''count'', JNum 2)]))
          (initial ''http://localhost:8000'')) = [JStr ''a'', JStr ''b'']
   \<and> chatCollections (fetchChatCollections (Fulfilled JNull) (initial ''http://localhost:8000'')) = []"
  using fetchChatCollections_shapes
    [where ps = "[(''collections'', JArr [JStr ''a'', JStr ''b'']), (''count'', JNum 2)]"
       and ys = "[JStr ''a'', JStr ''b'']" and data = JNull
       and s = "initial ''http://localhost:8000''"]
  by simp

subsection \<open>Failing list requests\<close>

text \<open>
  C1: when the documents list request fails, an error toast is shown and the loading flag
  is cleared, but the store is not reset: the handler writes no items, and a collection
  left by an earlier fetch is still there. The chat handler, run from a store that holds
  an item, does empty it.
\<close>

theorem fetchCollections_rejected_keeps_items:
  "pdfCollections
     (fetchCollections (Rejected ''Network Error'')
       ((initial ''http://localhost:8000'')\<lparr>pdfCollections := [stale_collection]\<rparr>))
     = [stale_collection]
   \<and> filter is_store_write
       (new_events ((initial ''http://localhost:8000'')\<lparr>pdfCollections := [stale_collection]\<rparr>)
         (fetchCollections (Rejected ''Network Error'')
           ((initial ''http://localhost:8000'')\<lparr>pdfCollections := [stale_collection]\<rparr>))) = []
   \<and> loadingPdf
       (fetchCollections (Rejected ''Network Error'')
         ((initial ''http://localhost:8000'')\<lparr>pdfCollections := [stale_collection]\<rparr>)) = False
   \<and> chatCollections
       (fetchChatCollections (Rejected ''Network Error'')
         ((initial ''http://localhost:8000'')\<lparr>chatCollections := [JStr ''chat'']\<rparr>)) = []"
  by (simp add: fetch_defs effect_defs initial_def new_events_def)


text \<open>
  C10: after a failing table list request the state is the one before the call with
  \<open>loadingDb\<close> false, the trace apart: the tables in the store are the ones it held.
\<close>

theorem fetchDbTables_rejected_keeps_tables:
  "(fetchDbTables (Rejected err) detail s)\<lparr>trace := trace s\<rparr> = s\<lparr>loadingDb := False\<rparr>
   \<and> dbTables (fetchDbTables (Rejected err) detail s) = dbTables s
   \<and> filter is_store_write (new_events s (fetchDbTables (Rejected err) detail s)) = []"
  by (simp add: fetch_defs effect_defs new_events_def)

subsection \<open>The table list and its details\<close>

lemma tables_then_nonempty:
  "tables \<noteq> [] \<Longrightarrow>
   tables_then url detail (TablesBody (Some tables)) =
     Inr (steps
           [steps (map (\<lambda>table. request (detail_request url table)) tables),
            setDbTables
              (map (\<lambda>(i, table). tableWithDetails table (detail i)) (enumerate 0 tables))])"
  by (simp add: tables_then_def)

lemma fetchDbTables_nonempty:
  assumes "tables \<noteq> []"
  shows "fetchDbTables (Fulfilled (TablesBody (Some tables))) detail s =
    s\<lparr>dbTables := map (\<lambda>(i, table). tableWithDetails table (detail i)) (enumerate 0 tables),
      loadingDb := False,
      trace := trace s @
        [SetLoadingDb True,
         Request (Fetch [Val (Some (JStr (apiUrl s))), Lit ''/api/v1/database/tables''])] @
        map (\<lambda>table. Request (detail_request (apiUrl s) table)) tables @
        [SetDbTables
           (map (\<lambda>(i, table). tableWithDetails table (detail i)) (enumerate 0 tables)),
         SetLoadingDb False]\<rparr>"
proof -
  let ?s1 = "fetchDbTables_start s"
  let ?rows = "map (\<lambda>(i, table). tableWithDetails table (detail i)) (enumerate 0 tables)"
  have s1: "?s1 = s\<lparr>loadingDb := True, trace := trace s @
        [SetLoadingDb True,
         Request (Fetch [Val (Some (JStr (apiUrl s))), Lit ''/api/v1/database/tables''])]\<rparr>"
    by (simp add: fetchDbTables_start_def effect_defs)
  have url: "apiUrl ?s1 = apiUrl s"
    by (simp add: s1)
  have "fetchDbTables (Fulfilled (TablesBody (Some tables))) detail s =
      setLoadingDb False
        (setDbTables ?rows
          (steps (map (\<lambda>table. request (detail_request (apiUrl s) table)) tables) ?s1))"
    by (simp add: fetchDbTables_def fetchDbTables_settle_def steps_Cons steps_Nil
        tables_then_nonempty [OF assms] url)
  also have "\<dots> = s\<lparr>dbTables := ?rows, loadingDb := False,
      trace := trace s @
        [SetLoadingDb True,
         Request (Fetch [Val (Some (JStr (apiUrl s))), Lit ''/api/v1/database/tables''])] @
        map (\<lambda>table. Request (detail_request (apiUrl s) table)) tables @
        [SetDbTables ?rows, SetLoadingDb False]\<rparr>"
    unfolding steps_requests s1
    by (simp add: setLoadingDb_def setDbTables_def emit_def)
  finally show ?thesis .
qed

lemma tableWithDetails_failed: "tableWithDetails table (Rejected err) = table"
  by (simp add: tableWithDetails_def)

lemma tableWithDetails_null: "tableWithDetails table (Fulfilled JNull) = table"
  by (simp add: tableWithDetails_def)

lemma tableWithDetails_body:
  "d \<noteq> JNull \<Longrightarrow>
   tableWithDetails table (Fulfilled d) =
     AList.update ''sample_data'' (or_empty (member d ''sample_data''))
       (AList.update ''columns'' (or_empty (member d ''columns'')) table)"
  by (cases d) (simp_all add: tableWithDetails_def)

lemma tableWithDetails_other_keys:
  assumes "k \<noteq> ''columns''" and "k \<noteq> ''sample_data''"
  shows "map_of (tableWithDetails table r) k = map_of table k"
proof (cases r)
  case (Rejected err)
  then show ?thesis by (simp add: tableWithDetails_failed)
next
  case (Fulfilled d)
  show ?thesis
  proof (cases "d = JNull")
    case True
    then show ?thesis by (simp add: Fulfilled tableWithDetails_null)
  next
    case False
    then show ?thesis using assms
      by (simp add: Fulfilled tableWithDetails_body update_conv')
  qed
qed

text \<open>
  C4, as the code has it: for a table list that is not empty, the store ends with one
  record for each listed table, in the order of the list, and each record has the
  properties of its table's record from the list, \<open>columns\<close> and \<open>sample_data\<close> apart.
  A table whose detail request throws in the \<open>try\<close> block (the request fails in the
  network, the body is not JSON, or the body is \<open>null\<close>) keeps the record the list
  gave, with nothing attached. A table whose detail request is answered with any other
  JSON body, whatever the status code, gets \<open>columns\<close> and \<open>sample_data\<close> written,
  each the body's value or \<open>[]\<close>. No toast is shown. The handler sets the loading flag,
  requests the list, issues one detail request for each table, writes the store once,
  and clears the loading flag.
\<close>

theorem fetchDbTables_details_merged:
  "tables \<noteq> [] \<Longrightarrow>
   length (dbTables (fetchDbTables (Fulfilled (TablesBody (Some tables))) detail s))
     = length tables
   \<and> (\<forall>i < length tables. \<forall>k. k \<noteq> ''columns'' \<and> k \<noteq> ''sample_data'' \<longrightarrow>
         map_of (dbTables (fetchDbTables (Fulfilled (TablesBody (Some tables))) detail s) ! i) k
           = map_of (tables ! i) k)
   \<and> (\<forall>i < length tables. \<forall>err. detail i = settles_as (NetworkFailure err) \<longrightarrow>
         dbTables (fetchDbTables (Fulfilled (TablesBody (Some tables))) detail s) ! i
           = tables ! i)
   \<and> (\<forall>i < length tables. \<forall>status. detail i = settles_as (Reply status None) \<longrightarrow>
         dbTables (fetchDbTables (Fulfilled (TablesBody (Some tables))) detail s) ! i
           = tables ! i)
   \<and> (\<forall>i < length tables. \<forall>status. detail i = settles_as (Reply status (Some JNull)) \<longrightarrow>
         dbTables (fetchDbTables (Fulfilled (TablesBody (Some tables))) detail s) ! i
           = tables ! i)
   \<and> (\<forall>i < length tables. \<forall>status d.
         detail i = settles_as (Reply status (Some d)) \<and> d \<noteq> JNull \<longrightarrow>
         dbTables (fetchDbTables (Fulfilled (TablesBody (Some tables))) detail s) ! i
           = AList.update ''sample_data'' (or_empty (member d ''sample_data''))
               (AList.update ''columns'' (or_empty (member d ''columns'')) (tables ! i)))
   \<and> filter is_toast
        (new_events s (fetchDbTables (Fulfilled (TablesBody (Some tables))) detail s)) = []
   \<and> new_events s (fetchDbTables (Fulfilled (TablesBody (Some tables))) detail s) =
        [SetLoadingDb True,
         Request (Fetch [Val (Some (JStr (apiUrl s))), Lit ''/api/v1/database/tables''])] @
        map (\<lambda>table. Request (detail_request (apiUrl s) table)) tables @
        [SetDbTables (dbTables (fetchDbTables (Fulfilled (TablesBody (Some tables))) detail s)),
         SetLoadingDb False]"
proof -
  assume nonempty: "tables \<noteq> []"
  let ?s' = "fetchDbTables (Fulfilled (TablesBody (Some tables))) detail s"
  note run = fetchDbTables_nonempty [OF nonempty, of detail s]
  have row: "dbTables ?s' ! i = tableWithDetails (tables ! i) (detail i)"
    if "i < length tables" for i
    using that by (simp add: run nth_enumerate_eq)
  have c1: "length (dbTables ?s') = length tables"
    by (simp add: run)
  have c2: "\<forall>i < length tables. \<forall>k. k \<noteq> ''columns'' \<and> k \<noteq> ''sample_data'' \<longrightarrow>
      map_of (dbTables ?s' ! i) k = map_of (tables ! i) k"
    by (simp add: row tableWithDetails_other_keys)
  have c3: "\<forall>i < length tables. \<forall>err. detail i = settles_as (NetworkFailure err) \<longrightarrow>
      dbTables ?s' ! i = tables ! i"
    by (simp add: row tableWithDetails_failed)
  have c4: "\<forall>i < length tables. \<forall>status. detail i = settles_as (Reply status None) \<longrightarrow>
      dbTables ?s' ! i = tables ! i"
    by (simp add: row tableWithDetails_failed)
  have c5: "\<forall>i < length tables. \<forall>status.
      detail i = settles_as (Reply status (Some JNull)) \<longrightarrow> dbTables ?s' ! i = tables ! i"
    by (simp add: row tableWithDetails_null)
  have c6: "\<forall>i < length tables. \<forall>status d.
      detail i = settles_as (Reply status (Some d)) \<and> d \<noteq> JNull \<longrightarrow>
      dbTables ?s' ! i
        = AList.update ''sample_data'' (or_empty (member d ''sample_data''))
            (AList.update ''columns'' (or_empty (member d ''columns'')) (tables ! i))"
    by (simp add: row tableWithDetails_body)
  have c7: "filter is_toast (new_events s ?s') = []"
    by (simp add: run new_events_def filter_empty_conv)
  have c8: "new_events s ?s' =
        [SetLoadingDb True,
         Request (Fetch [Val (Some (JStr (apiUrl s))), Lit ''/api/v1/database/tables''])] @
        map (\<lambda>table. Request (detail_request (apiUrl s) table)) tables @
        [SetDbTables (dbTables ?s'), SetLoadingDb False]"
    by (simp add: run new_events_def)
  show ?thesis
    by (rule conjI [OF c1 conjI [OF c2 conjI [OF c3 conjI [OF c4 conjI [OF c5
          conjI [OF c6 conjI [OF c7 c8]]]]]]])
qed

text \<open>
  Five tables: the detail request for \<open>orders\<close> fails in the network, the one for
  \<open>products\<close> has a body that is not JSON, the one for \<open>invoices\<close> the body \<open>null\<close>.
  The store holds five records; these three are the records of the list, and the record
  for \<open>users\<close> has its name and the columns of its detail.
\<close>

theorem fetchDbTables_details_merged_witness:
  "five_tables \<noteq> []
   \<and> (0::nat) < length five_tables \<and> (1::nat) < length five_tables
   \<and> (2::nat) < length five_tables \<and> (3::nat) < length five_tables
   \<and> ''name'' \<noteq> ''columns'' \<and> ''name'' \<noteq> ''sample_data''
   \<and> mixed_details 1 = settles_as (NetworkFailure ''Failed to fetch'')
   \<and> mixed_details 2 = settles_as (Reply 502 None)
   \<and> mixed_details 3 = settles_as (Reply 200 (Some JNull))
   \<and> mixed_details 0 = settles_as (Reply 200 (Some id_column))
   \<and> id_column \<noteq> JNull
   \<and> length (dbTables (fetchDbTables (Fulfilled (TablesBody (Some five_tables))) mixed_details
        (initial ''http://localhost:8000''))) = 5
   \<and> dbTables (fetchDbTables (Fulfilled (TablesBody (Some five_tables))) mixed_details
        (initial ''http://localhost:8000'')) ! 1 = [(''name'', JStr ''orders'')]
   \<and> dbTables (fetchDbTables (Fulfilled (TablesBody (Some five_tables))) mixed_details
        (initial ''http://localhost:8000'')) ! 2 = [(''name'', JStr ''products'')]
   \<and> dbTables (fetchDbTables (Fulfilled (TablesBody (Some five_tables))) mixed_details
        (initial ''http://localhost:8000'')) ! 3 = [(''name'', JStr ''invoices'')]
   \<and> dbTables (fetchDbTables (Fulfilled (TablesBody (Some five_tables))) mixed_details
        (initial ''http://localhost:8000'')) ! 0 =
       [(''name'', JStr ''users''), (''columns'', JArr [JObj [(''name'', JStr ''id'')]]),
        (''sample_data'', JArr [])]
   \<and> map_of (dbTables (fetchDbTables (Fulfilled (TablesBody (Some five_tables))) mixed_details
        (initial ''http://localhost:8000'')) ! 0) ''name'' = Some (JStr ''users'')"
proof -
  let ?s' = "fetchDbTables (Fulfilled (TablesBody (Some five_tables))) mixed_details
        (initial ''http://localhost:8000'')"
  have nonempty: "five_tables \<noteq> []"
    by (simp add: five_tables_def)
  have len: "(0::nat) < length five_tables" "(1::nat) < length five_tables"
    "(2::nat) < length five_tables" "(3::nat) < length five_tables"
    by (simp_all add: five_tables_def)
  have keys: "''name'' \<noteq> ''columns'' \<and> ''name'' \<noteq> ''sample_data''"
    by simp
  have r1: "mixed_details 1 = settles_as (NetworkFailure ''Failed to fetch'')"
    and r2: "mixed_details 2 = settles_as (Reply 502 None)"
    and r3: "mixed_details 3 = settles_as (Reply 200 (Some JNull))"
    and r0: "mixed_details 0 = settles_as (Reply 200 (Some id_column))"
    by (simp_all add: mixed_details_def mixed_replies_def)
  have d: "id_column \<noteq> JNull"
    by (simp add: id_column_def)
  note all = fetchDbTables_details_merged
    [OF nonempty, of mixed_details "initial ''http://localhost:8000''"]
  note same_length = all [THEN conjunct1]
  note other_keys = all [THEN conjunct2, THEN conjunct1, rule_format]
  note network = all [THEN conjunct2, THEN conjunct2, THEN conjunct1, rule_format]
  note not_json = all [THEN conjunct2, THEN conjunct2, THEN conjunct2, THEN conjunct1, rule_format]
  note null_body =
    all [THEN conjunct2, THEN conjunct2, THEN conjunct2, THEN conjunct2, THEN conjunct1,
      rule_format]
  note json_body =
    all [THEN conjunct2, THEN conjunct2, THEN conjunct2, THEN conjunct2, THEN conjunct2,
      THEN conjunct1, rule_format]
  have five: "length (dbTables ?s') = 5"
    using same_length by (simp add: five_tables_def)
  have orders: "dbTables ?s' ! 1 = [(''name'', JStr ''orders'')]"
    using network [OF len(2) r1] by (simp add: five_tables_def)
  have products: "dbTables ?s' ! 2 = [(''name'', JStr ''products'')]"
    using not_json [OF len(3) r2] by (simp add: five_tables_def)
  have invoices: "dbTables ?s' ! 3 = [(''name'', JStr ''invoices'')]"
    using null_body [OF len(4) r3] by (simp add: five_tables_def)
  have users: "dbTables ?s' ! 0 =
       [(''name'', JStr ''users''), (''columns'', JArr [JObj [(''name'', JStr ''id'')]]),
        (''sample_data'', JArr [])]"
    using json_body [OF len(1) conjI [OF r0 d]]
    by (simp add: five_tables_def id_column_def or_empty_def)
  have name: "map_of (dbTables ?s' ! 0) ''name'' = Some (JStr ''users'')"
    using other_keys [OF len(1) keys] by (simp add: five_tables_def)
  show ?thesis
    using nonempty len keys r1 r2 r3 r0 d five orders products invoices users name by simp
qed

text \<open>
  A failing detail request that is not swallowed into the base record: the detail
  request for \<open>orders\<close> is answered with status 404, which is not an \<open>ok\<close> status, and
  a JSON error body. The callback does not read the status; the record in the store is
  not the record of the list, it has empty \<open>columns\<close> and \<open>sample_data\<close> attached.
\<close>

theorem detail_error_status_attaches_columns:
  "\<not> response_ok 404
   \<and> orders_not_found 1
       = settles_as (Reply 404 (Some (JObj [(''detail'', JStr ''Table not found'')])))
   \<and> dbTables (fetchDbTables (Fulfilled (TablesBody (Some five_tables))) orders_not_found
        (initial ''http://localhost:8000'')) ! 1 =
       [(''name'', JStr ''orders''), (''columns'', JArr []), (''sample_data'', JArr [])]
   \<and> dbTables (fetchDbTables (Fulfilled (TablesBody (Some five_tables))) orders_not_found
        (initial ''http://localhost:8000'')) ! 1 \<noteq> five_tables ! 1
   \<and> map_of (dbTables (fetchDbTables (Fulfilled (TablesBody (Some five_tables))) orders_not_found
        (initial ''http://localhost:8000'')) ! 1) ''columns'' = Some (JArr [])"
proof -
  let ?s' = "fetchDbTables (Fulfilled (TablesBody (Some five_tables))) orders_not_found
        (initial ''http://localhost:8000'')"
  have nonempty: "five_tables \<noteq> []"
    by (simp add: five_tables_def)
  have reply: "orders_not_found 1
       = settles_as (Reply 404 (Some (JObj [(''detail'', JStr ''Table not found'')])))"
    by (simp add: orders_not_found_def)
  have len: "(1::nat) < length five_tables"
    by (simp add: five_tables_def)
  have merged: "dbTables ?s' ! 1 = tableWithDetails (five_tables ! 1) (orders_not_found 1)"
    using len by (simp add: fetchDbTables_nonempty [OF nonempty] nth_enumerate_eq)
  have "tableWithDetails (five_tables ! 1) (orders_not_found 1) =
       [(''name'', JStr ''orders''), (''columns'', JArr []), (''sample_data'', JArr [])]"
    unfolding reply by (simp add: five_tables_def tableWithDetails_def or_empty_def)
  with merged have row: "dbTables ?s' ! 1 =
       [(''name'', JStr ''orders''), (''columns'', JArr []), (''sample_data'', JArr [])]"
    by simp
  have base: "five_tables ! 1 = [(''name'', JStr ''orders'')]"
    by (simp add: five_tables_def)
  show ?thesis
    unfolding row base using reply by (simp add: response_ok_def)
qed

subsection \<open>The loading flags\<close>

lemma no_loading_write_in_requests:
  "filter is_loading_write (map (\<lambda>x. Request (f x)) xs) = []"
  by (simp add: filter_empty_conv)

lemma fetchDbTables_bracket:
  "take 2 (new_events s (fetchDbTables r detail s)) =
     [SetLoadingDb True,
      Request (Fetch [Val (Some (JStr (apiUrl s))), Lit ''/api/v1/database/tables''])]
   \<and> filter is_loading_write (new_events s (fetchDbTables r detail s)) =
       [SetLoadingDb True, SetLoadingDb False]
   \<and> last (new_events s (fetchDbTables r detail s)) = SetLoadingDb False
   \<and> \<not> loadingDb (fetchDbTables r detail s)"
proof (cases r)
  case (Rejected err)
  then show ?thesis
    by (simp add: fetch_defs effect_defs new_events_def)
next
  case (Fulfilled data)
  show ?thesis
  proof (cases "\<exists>tables. data = TablesBody (Some tables) \<and> tables \<noteq> []")
    case True
    then obtain tables where data: "data = TablesBody (Some tables)" and ne: "tables \<noteq> []"
      by blast
    show ?thesis
      unfolding Fulfilled data fetchDbTables_nonempty [OF ne]
      by (simp add: new_events_def no_loading_write_in_requests)
  next
    case False
    then have "tables_then (apiUrl s) detail data = Inl ''TypeError''
        \<or> tables_then (apiUrl s) detail data = Inr (setDbTables [])"
      by (auto simp: tables_then_def split: tables_data.splits option.splits)
    then show ?thesis
      unfolding Fulfilled
      by (auto simp: fetch_defs effect_defs new_events_def)
  qed
qed

text \<open>
  C9: each of the three list handlers, before it returns, sets its loading flag and then
  issues its request: when the call returns the flag is true, and nothing else of the
  state has changed. The rest of the handler runs from that state once the request has
  settled. Whatever the request settles to, the run of the handler writes a loading flag
  exactly twice, \<open>true\<close> first and \<open>false\<close> as the last thing it does, and leaves the
  flag false.
\<close>

theorem loading_flag_brackets_request:
  "loadingPdf (fetchCollections_start s)
   \<and> loadingChat (fetchChatCollections_start s)
   \<and> loadingDb (fetchDbTables_start s)
   \<and> (fetchCollections_start s)\<lparr>trace := trace s\<rparr> = s\<lparr>loadingPdf := True\<rparr>
   \<and> (fetchChatCollections_start s)\<lparr>trace := trace s\<rparr> = s\<lparr>loadingChat := True\<rparr>
   \<and> (fetchDbTables_start s)\<lparr>trace := trace s\<rparr> = s\<lparr>loadingDb := True\<rparr>
   \<and> fetchCollections rp s = fetchCollections_settle rp (fetchCollections_start s)
   \<and> fetchChatCollections rc s = fetchChatCollections_settle rc (fetchChatCollections_start s)
   \<and> fetchDbTables rd detail s = fetchDbTables_settle rd detail (fetchDbTables_start s)
   \<and> new_events s (fetchCollections_start s) = [SetLoadingPdf True, Request PdfCollectionsGet]
   \<and> take 2 (new_events s (fetchCollections rp s))
       = [SetLoadingPdf True, Request PdfCollectionsGet]
   \<and> filter is_loading_write (new_events s (fetchCollections rp s))
       = [SetLoadingPdf True, SetLoadingPdf False]
   \<and> last (new_events s (fetchCollections rp s)) = SetLoadingPdf False
   \<and> \<not> loadingPdf (fetchCollections rp s)
   \<and> new_events s (fetchChatCollections_start s)
       = [SetLoadingChat True, Request ChatCollectionsGet]
   \<and> take 2 (new_events s (fetchChatCollections rc s))
       = [SetLoadingChat True, Request ChatCollectionsGet]
   \<and> filter is_loading_write (new_events s (fetchChatCollections rc s))
       = [SetLoadingChat True, SetLoadingChat False]
   \<and> last (new_events s (fetchChatCollections rc s)) = SetLoadingChat False
   \<and> \<not> loadingChat (fetchChatCollections rc s)
   \<and> new_events s (fetchDbTables_start s)
       = [SetLoadingDb True,
          Request (Fetch [Val (Some (JStr (apiUrl s))), Lit ''/api/v1/database/tables''])]
   \<and> take 2 (new_events s (fetchDbTables rd detail s))
       = [SetLoadingDb True,
          Request (Fetch [Val (Some (JStr (apiUrl s))), Lit ''/api/v1/database/tables''])]
   \<and> filter is_loading_write (new_events s (fetchDbTables rd detail s))
       = [SetLoadingDb True, SetLoadingDb False]
   \<and> last (new_events s (fetchDbTables rd detail s)) = SetLoadingDb False
   \<and> \<not> loadingDb (fetchDbTables rd detail s)"
proof -
  have pdf: "new_events s (fetchCollections_start s) = [SetLoadingPdf True, Request PdfCollectionsGet]
   \<and> take 2 (new_events s (fetchCollections rp s))
       = [SetLoadingPdf True, Request PdfCollectionsGet]
   \<and> filter is_loading_write (new_events s (fetchCollections rp s))
       = [SetLoadingPdf True, SetLoadingPdf False]
   \<and> last (new_events s (fetchCollections rp s)) = SetLoadingPdf False
   \<and> \<not> loadingPdf (fetchCollections rp s)"
    by (cases rp) (simp_all add: fetch_defs effect_defs new_events_def)
  have chat: "new_events s (fetchChatCollections_start s)
       = [SetLoadingChat True, Request ChatCollectionsGet]
   \<and> take 2 (new_events s (fetchChatCollections rc s))
       = [SetLoadingChat True, Request ChatCollectionsGet]
   \<and> filter is_loading_write (new_events s (fetchChatCollections rc s))
       = [SetLoadingChat True, SetLoadingChat False]
   \<and> last (new_events s (fetchChatCollections rc s)) = SetLoadingChat False
   \<and> \<not> loadingChat (fetchChatCollections rc s)"
    by (cases rc) (simp_all add: fetch_defs effect_defs new_events_def chat_then_cases)
  have db: "new_events s (fetchDbTables_start s)
       = [SetLoadingDb True,
          Request (Fetch [Val (Some (JStr (apiUrl s))), Lit ''/api/v1/database/tables''])]"
    by (simp add: fetchDbTables_start_def effect_defs new_events_def)
  have started: "loadingPdf (fetchCollections_start s)
   \<and> loadingChat (fetchChatCollections_start s)
   \<and> loadingDb (fetchDbTables_start s)
   \<and> (fetchCollections_start s)\<lparr>trace := trace s\<rparr> = s\<lparr>loadingPdf := True\<rparr>
   \<and> (fetchChatCollections_start s)\<lparr>trace := trace s\<rparr> = s\<lparr>loadingChat := True\<rparr>
   \<and> (fetchDbTables_start s)\<lparr>trace := trace s\<rparr> = s\<lparr>loadingDb := True\<rparr>"
    by (simp add: fetchCollections_start_def fetchChatCollections_start_def
        fetchDbTables_start_def effect_defs)
  have split: "fetchCollections rp s = fetchCollections_settle rp (fetchCollections_start s)
   \<and> fetchChatCollections rc s = fetchChatCollections_settle rc (fetchChatCollections_start s)
   \<and> fetchDbTables rd detail s = fetchDbTables_settle rd detail (fetchDbTables_start s)"
    by (simp add: fetchCollections_def fetchChatCollections_def fetchDbTables_def
        steps_Cons steps_Nil)
  show ?thesis
    using started split pdf chat db fetchDbTables_bracket [of s rd detail] by blast
qed

subsection \<open>Deleting, uploading, expanding\<close>

text \<open>
  C5: a successful delete shows its success toast and then runs the reload, and the store
  holds exactly what the reload returns (the documents list as it is; for chats the bare
  array or the array of the envelope), whatever ids are in it. A failed delete shows its
  failure toast, issues no reload, and leaves the state as it was, the trace apart.
\<close>

theorem delete_reloads_or_leaves_store:
  "pdfCollections (deleteCollection cid (Fulfilled ()) (Fulfilled xs) s) = xs
   \<and> new_events s (deleteCollection cid (Fulfilled ()) (Fulfilled xs) s) =
       [Request (PdfCollectionDelete cid),
        Toast \<lparr>title = ''Collection Deleted'',
               description = [Lit ''Collection deleted successfully''], variant = None\<rparr>,
        SetLoadingPdf True, Request PdfCollectionsGet, ConsoleLog ''Fetched PDF collections:'',
        SetPdfCollections xs, SetLoadingPdf False]
   \<and> (deleteCollection cid (Rejected err) reload s)\<lparr>trace := trace s\<rparr> = s
   \<and> new_events s (deleteCollection cid (Rejected err) reload s) =
       [Request (PdfCollectionDelete cid), ConsoleError ''Delete failed:'' err,
        Toast \<lparr>title = ''Delete Failed'', description = [Lit ''Failed to delete collection''],
               variant = Some ''destructive''\<rparr>]
   \<and> chatCollections (deleteChatCollection cid (Fulfilled ()) (Fulfilled (JArr ys)) s) = ys
   \<and> chatCollections
       (deleteChatCollection cid (Fulfilled ())
         (Fulfilled (JObj ((''collections'', JArr ys) # rest))) s) = ys
   \<and> new_events s (deleteChatCollection cid (Fulfilled ()) (Fulfilled (JArr ys)) s) =
       [Request (ChatCollectionDelete cid),
        Toast \<lparr>title = ''Chat Collection Deleted'',
               description = [Lit ''Chat collection deleted successfully''], variant = None\<rparr>,
        SetLoadingChat True, Request ChatCollectionsGet, SetChatCollections ys,
        SetLoadingChat False]
   \<and> (deleteChatCollection cid (Rejected err) reload' s)\<lparr>trace := trace s\<rparr> = s
   \<and> new_events s (deleteChatCollection cid (Rejected err) reload' s) =
       [Request (ChatCollectionDelete cid), ConsoleError ''Delete failed:'' err,
        Toast \<lparr>title = ''Delete Failed'',
               description = [Lit ''Failed to delete chat collection''],
               variant = Some ''destructive''\<rparr>]"
  by (simp add: deleteCollection_def deleteChatCollection_def fetch_defs effect_defs
      new_events_def chat_then_cases)

text \<open>
  C7: with no selection, or an empty one, the upload handler changes nothing at all. With
  a selection of at least one file it sets \<open>uploading\<close> and sends every file in one
  request: when the call returns \<open>uploading\<close> is true and nothing else of the state has
  changed. Once the upload has settled: on success shows a toast with the file count of the response,
  starts the reload of the documents and clears \<open>uploading\<close>; on failure shows the
  failure toast, sends nothing again and clears \<open>uploading\<close>, leaving the rest of the
  state as it was.
\<close>

theorem handlePdfUpload_behaviour:
  "handlePdfUpload None upload reload s = s
   \<and> handlePdfUpload (Some []) upload reload s = s
   \<and> handlePdfUpload (Some (f # fs)) upload reload s
       = handlePdfUpload_settle upload reload (handlePdfUpload_start (f # fs) s)
   \<and> uploading (handlePdfUpload_start (f # fs) s)
   \<and> (handlePdfUpload_start (f # fs) s)\<lparr>trace := trace s\<rparr> = s\<lparr>uploading := True\<rparr>
   \<and> new_events s (handlePdfUpload_start (f # fs) s) =
       [SetUploading True, Request (PdfUploadStore (map (\<lambda>f. (''files'', f)) (f # fs)))]
   \<and> \<not> uploading (handlePdfUpload_settle upload reload s')
   \<and> new_events s (handlePdfUpload (Some (f # fs)) (Fulfilled data) reload s) =
       [SetUploading True, Request (PdfUploadStore (map (\<lambda>f. (''files'', f)) (f # fs))),
        Toast \<lparr>title = ''Upload Successful'',
               description =
                 [Val (Some (JNum (file_count data))), Lit '' PDF(s) uploaded successfully''],
               variant = None\<rparr>,
        SetLoadingPdf True, Request PdfCollectionsGet, SetUploading False] @
       (case reload of
          Fulfilled xs \<Rightarrow> [ConsoleLog ''Fetched PDF collections:'', SetPdfCollections xs]
        | Rejected e \<Rightarrow>
            [ConsoleError ''Failed to fetch collections:'' e,
             Toast \<lparr>title = ''Error'', description = [Lit ''Failed to fetch PDF collections''],
                    variant = Some ''destructive''\<rparr>]) @
       [SetLoadingPdf False]
   \<and> \<not> uploading (handlePdfUpload (Some (f # fs)) (Fulfilled data) reload s)
   \<and> new_events s (handlePdfUpload (Some (f # fs)) (Rejected err) reload s) =
       [SetUploading True, Request (PdfUploadStore (map (\<lambda>f. (''files'', f)) (f # fs))),
        ConsoleError ''Upload failed:'' err,
        Toast \<lparr>title = ''Upload Failed'', description = [Lit ''Failed to upload PDF files''],
               variant = Some ''destructive''\<rparr>,
        SetUploading False]
   \<and> (handlePdfUpload (Some (f # fs)) (Rejected err) reload s)\<lparr>trace := trace s\<rparr>
       = s\<lparr>uploading := False\<rparr>"
  by (cases reload; cases upload)
     (simp_all add: handlePdfUpload_def handlePdfUpload_start_def handlePdfUpload_settle_def
        fetch_defs effect_defs new_events_def)

text \<open>
  C6: toggling a table name twice gives the expanded set back; toggling a name that is
  not in the set adds it; the membership of every other name stays as it is. The toggle
  writes the expanded set and nothing else: no request goes out and the tables in the
  store, with their columns, are the same.
\<close>

theorem toggleTableExpansion_round_trip:
  "expandedTables (toggleTableExpansion t (toggleTableExpansion t s)) = expandedTables s
   \<and> (t \<notin> expandedTables s \<longrightarrow>
        expandedTables (toggleTableExpansion t s) = insert t (expandedTables s))
   \<and> (u \<noteq> t \<longrightarrow>
        (u \<in> expandedTables (toggleTableExpansion t s)) = (u \<in> expandedTables s))
   \<and> (toggleTableExpansion t s)\<lparr>expandedTables := expandedTables s, trace := trace s\<rparr> = s
   \<and> dbTables (toggleTableExpansion t s) = dbTables s
   \<and> filter is_request (new_events s (toggleTableExpansion t s)) = []"
  by (auto simp add: toggleTableExpansion_def effect_defs new_events_def Let_def)

text \<open>Expanding \<open>users\<close> while \<open>orders\<close> is expanded.\<close>

theorem toggleTableExpansion_round_trip_witness:
  "''users'' \<notin> expandedTables orders_expanded
   \<and> ''orders'' \<noteq> ''users''
   \<and> expandedTables (toggleTableExpansion ''users'' orders_expanded) = {''users'', ''orders''}
   \<and> ''orders'' \<in> expandedTables (toggleTableExpansion ''users'' orders_expanded)
   \<and> expandedTables (toggleTableExpansion ''users'' (toggleTableExpansion ''users'' orders_expanded))
       = {''orders''}"
  using toggleTableExpansion_round_trip [of "''users''" orders_expanded "''orders''"]
  by (simp add: orders_expanded_def initial_def)

end
